theory Spec2Isabelle
  imports Main "HOL-Library.AList"
begin

section \<open>JavaScript values and library functions used by the forms\<close>

text \<open>
  A promise settles in one of two ways. \<open>Rejected\<close> stands for a rejection (a transport
  error of a remote call, or an exception thrown inside an \<open>async\<close> function).
\<close>

datatype 'a promise = Resolved 'a | Rejected

datatype js_error = TypeError

text \<open>
  \<open>string | undefined\<close> is a \<open>string option\<close>; \<open>None\<close> is \<open>undefined\<close> (or \<open>null\<close>).
  \<open>!v\<close> holds for \<open>undefined\<close>, \<open>null\<close> and the empty string.
\<close>

definition falsy :: "string option \<Rightarrow> bool" where
  "falsy v = (case v of None \<Rightarrow> True | Some s \<Rightarrow> s = [])"

text \<open>
  \<open>s.indexOf(c)\<close> and \<open>s.lastIndexOf(c)\<close> for a one-character search string:
  the index of the first (last) occurrence, \<open>-1\<close> when there is none.
\<close>

definition indexOf :: "string \<Rightarrow> char \<Rightarrow> int" where
  "indexOf s c =
     (if c \<in> set s then int (length (takeWhile (\<lambda>x. x \<noteq> c) s)) else - 1)"

definition lastIndexOf :: "string \<Rightarrow> char \<Rightarrow> int" where
  "lastIndexOf s c =
     (if c \<in> set s
      then int (length s) - 1 - int (length (takeWhile (\<lambda>x. x \<noteq> c) (rev s)))
      else - 1)"

text \<open>
  The regular-expression engine is the platform's: \<open>new RegExp(p)\<close> either throws a
  SyntaxError (\<open>None\<close>) or yields a matcher whose \<open>test\<close> is the returned predicate.
\<close>

type_synonym regexp_engine = "string \<Rightarrow> (string \<Rightarrow> bool) option"

text \<open>The translation function \<open>t\<close> of react-i18next, from message key to message.\<close>

type_synonym i18n = "string \<Rightarrow> string"

text \<open>
  \<open>memoize(f)\<close> of lodash: the cache is keyed by the argument and holds what the first call
  with that argument returned (here: how the returned promise settles). A cache hit runs
  nothing, so it makes no remote call. The second component of \<open>f\<close>'s result lists the
  remote calls made while computing it.
\<close>

definition memoize ::
  "('a \<Rightarrow> 'b \<times> 'c list) \<Rightarrow> ('a \<rightharpoonup> 'b) \<Rightarrow> 'a \<Rightarrow> ('b \<times> 'c list) \<times> ('a \<rightharpoonup> 'b)" where
  "memoize f cache x =
     (case cache x of
        Some r \<Rightarrow> ((r, []), cache)
      | None \<Rightarrow> (let (r, calls) = f x in ((r, calls), cache(x \<mapsto> r))))"

text \<open>
  The cache of a memoized function after a history of calls, most recent first, starting
  from the empty cache. Each call comes with the environment \<open>h\<close> it ran in (what the
  remote collaborators answered at that time).
\<close>

fun memo_cache :: "('h \<Rightarrow> 'a \<Rightarrow> 'b \<times> 'c list) \<Rightarrow> ('h \<times> 'a) list \<Rightarrow> ('a \<rightharpoonup> 'b)" where
  "memo_cache f [] = Map.empty"
| "memo_cache f ((h, x) # earlier) = snd (memoize (f h) (memo_cache f earlier) x)"

section \<open>Tenant creation form\<close>

subsection \<open>Configuration read from the store\<close>

record tenant_config =
  tenantDomainRegex :: "string option"
  tenantDomainIllegalCharactersRegex :: "string option"
  isTenantDomainDotExtensionMandatory :: bool

text \<open>
  \<open>if (pattern) { const regex = new RegExp(pattern); ... regex.test(value) ... }\<close>:
  the rule is skipped when the pattern is absent or empty, the constructor may throw,
  and otherwise the value is tested.
\<close>

datatype tested = NotConfigured | SyntaxError | Tested bool

definition test_configured :: "regexp_engine \<Rightarrow> string option \<Rightarrow> string \<Rightarrow> tested" where
  "test_configured RegExp pattern v =
     (case pattern of
        None \<Rightarrow> NotConfigured
      | Some p \<Rightarrow>
          (if p = [] then NotConfigured
           else (case RegExp p of
                   None \<Rightarrow> SyntaxError
                 | Some regex \<Rightarrow> Tested (regex v))))"

subsection \<open>Per-field validators\<close>

definition domainMandatoryExtension :: string where
  "domainMandatoryExtension = ''tenants:common.form.fields.domain.validations.domainMandatoryExtension''"

definition domainInvalidPattern :: string where
  "domainInvalidPattern = ''tenants:common.form.fields.domain.validations.domainInvalidPattern''"

definition domainStartingWithDot :: string where
  "domainStartingWithDot = ''tenants:common.form.fields.domain.validations.domainStartingWithDot''"

definition domainInvalidCharPattern :: string where
  "domainInvalidCharPattern = ''tenants:common.form.fields.domain.validations.domainInvalidCharPattern''"

definition domainUnavailable :: string where
  "domainUnavailable = ''tenants:common.form.fields.domain.validations.domainUnavailable''"

text \<open>
  The body of \<open>validateDomain\<close>. The result is how the returned promise settles
  (\<open>Resolved None\<close> is "no error") together with the domains for which
  \<open>getTenantDomainAvailability\<close> was called.
\<close>

definition validateDomain_body ::
  "i18n \<Rightarrow> regexp_engine \<Rightarrow> tenant_config \<Rightarrow> (string \<Rightarrow> bool promise) \<Rightarrow> string
     \<Rightarrow> string option promise \<times> string list" where
  "validateDomain_body t RegExp cfg getTenantDomainAvailability v =
     (if v = [] then (Resolved None, [])
      else if isTenantDomainDotExtensionMandatory cfg \<and> lastIndexOf v (CHR ''.'') \<le> 0
      then (Resolved (Some (t domainMandatoryExtension)), [])
      else
       (case test_configured RegExp (tenantDomainRegex cfg) v of
          SyntaxError \<Rightarrow> (Rejected, [])
        | Tested False \<Rightarrow> (Resolved (Some (t domainInvalidPattern)), [])
        | _ \<Rightarrow>
           (if indexOf v (CHR ''.'') = 0
            then (Resolved (Some (t domainStartingWithDot)), [])
            else
             (case test_configured RegExp (tenantDomainIllegalCharactersRegex cfg) v of
                SyntaxError \<Rightarrow> (Rejected, [])
              | Tested True \<Rightarrow> (Resolved (Some (t domainInvalidCharPattern)), [])
              | _ \<Rightarrow>
                 (let isAvailable =
                        (case getTenantDomainAvailability v of
                           Resolved b \<Rightarrow> b
                         | Rejected \<Rightarrow> False)
                  in (Resolved (if \<not> isAvailable then Some (t domainUnavailable) else None),
                      [v]))))))"

text \<open>
  \<open>validateDomain = useCallback(memoize(...), [])\<close>: one cache for the lifetime of the
  form instance, and the configuration and \<open>t\<close> of the first render.
\<close>

definition validateDomain ::
  "i18n \<Rightarrow> regexp_engine \<Rightarrow> tenant_config \<Rightarrow> (string \<Rightarrow> bool promise)
     \<Rightarrow> (string \<rightharpoonup> string option promise) \<Rightarrow> string
     \<Rightarrow> (string option promise \<times> string list) \<times> (string \<rightharpoonup> string option promise)" where
  "validateDomain t RegExp cfg getTenantDomainAvailability =
     memoize (validateDomain_body t RegExp cfg getTenantDomainAvailability)"

text \<open>
  The cache after a history of validations of the domain field, most recent first, starting
  from the empty cache of a fresh form; the backend may answer differently at each of them.
\<close>

definition validateDomain_cache ::
  "i18n \<Rightarrow> regexp_engine \<Rightarrow> tenant_config \<Rightarrow> ((string \<Rightarrow> bool promise) \<times> string) list
     \<Rightarrow> (string \<rightharpoonup> string option promise)" where
  "validateDomain_cache t RegExp cfg = memo_cache (validateDomain_body t RegExp cfg)"

definition usernameRegExViolation :: string where
  "usernameRegExViolation = ''tenants:common.form.fields.username.validations.regExViolation''"

text \<open>
  \<open>validateUsernameAgainstUserstoreRegExp\<close>. The userstore pattern is fetched remotely
  (\<open>getUsertoreUsernameValidationPattern\<close>); \<open>validateInputAgainstRegEx\<close> and
  \<open>FormValidation.email\<close> are the shared utilities.
\<close>

definition validateUsernameAgainstUserstoreRegExp ::
  "i18n \<Rightarrow> string promise \<Rightarrow> (string \<Rightarrow> string \<Rightarrow> bool) \<Rightarrow> (string \<Rightarrow> bool) \<Rightarrow> string
     \<Rightarrow> string option promise" where
  "validateUsernameAgainstUserstoreRegExp t getUsertoreUsernameValidationPattern
       validateInputAgainstRegEx email v =
     (if v = [] then Resolved None
      else
       (case getUsertoreUsernameValidationPattern of
          Rejected \<Rightarrow> Rejected
        | Resolved userRegex \<Rightarrow>
           (if \<not> validateInputAgainstRegEx v userRegex \<or> \<not> email v
            then Resolved (Some (t usernameRegExViolation))
            else Resolved None)))"

definition organizationNameInvalidCharPattern :: string where
  "organizationNameInvalidCharPattern =
     ''tenants:common.form.fields.organizationName.validations.invalidCharPattern''"

text \<open>
  \<open>validateOrganizationName\<close>; \<open>ORGANIZATION_NAME_REGEX\<close> is the constant of
  \<open>TenantConstants\<close>. The validator makes no remote call.
\<close>

definition validateOrganizationName_body ::
  "i18n \<Rightarrow> regexp_engine \<Rightarrow> string \<Rightarrow> string \<Rightarrow> string option promise \<times> unit list" where
  "validateOrganizationName_body t RegExp ORGANIZATION_NAME_REGEX orgName =
     (if orgName = [] then (Resolved None, [])
      else
       (case RegExp ORGANIZATION_NAME_REGEX of
          None \<Rightarrow> (Rejected, [])
        | Some regex \<Rightarrow>
           (if regex orgName
            then (Resolved (Some (t organizationNameInvalidCharPattern)), [])
            else (Resolved None, []))))"

definition validateOrganizationName ::
  "i18n \<Rightarrow> regexp_engine \<Rightarrow> string \<Rightarrow> (string \<rightharpoonup> string option promise) \<Rightarrow> string
     \<Rightarrow> (string option promise \<times> unit list) \<times> (string \<rightharpoonup> string option promise)" where
  "validateOrganizationName t RegExp ORGANIZATION_NAME_REGEX =
     memoize (validateOrganizationName_body t RegExp ORGANIZATION_NAME_REGEX)"

definition validateOrganizationName_cache ::
  "i18n \<Rightarrow> regexp_engine \<Rightarrow> string \<Rightarrow> (unit \<times> string) list
     \<Rightarrow> (string \<rightharpoonup> string option promise)" where
  "validateOrganizationName_cache t RegExp ORGANIZATION_NAME_REGEX =
     memo_cache (\<lambda>_. validateOrganizationName_body t RegExp ORGANIZATION_NAME_REGEX)"

subsection \<open>Form values, submit-time validation and the request payload\<close>

text \<open>
  The values object of the form: the text fields that have a value, by field name
  (keys are distinct; a field without a value is \<open>undefined\<close>).
\<close>

type_synonym AddTenantFormValues = "(string \<times> string) list"

definition field :: "AddTenantFormValues \<Rightarrow> string \<Rightarrow> string option" where
  "field values k = map_of values k"

record AddTenantFormErrors =
  domain :: "string option"
  email :: "string option"
  firstname :: "string option"
  lastname :: "string option"
  password :: "string option"
  username :: "string option"

definition required :: "i18n \<Rightarrow> string \<Rightarrow> string option \<Rightarrow> string option" where
  "required t key v = (if falsy v then Some (t key) else None)"

definition handleValidate ::
  "i18n \<Rightarrow> (string \<Rightarrow> bool) \<Rightarrow> AddTenantFormValues \<Rightarrow> AddTenantFormErrors" where
  "handleValidate t FormValidation_email values =
     \<lparr> domain = required t ''tenants:common.form.fields.domain.validations.required''
                  (field values ''domain''),
       email =
         (case field values ''email'' of
            None \<Rightarrow> Some (t ''tenants:common.form.fields.email.validations.required'')
          | Some e \<Rightarrow>
             (if e = [] then Some (t ''tenants:common.form.fields.email.validations.required'')
              else if \<not> FormValidation_email e
              then Some (t ''tenants:common.form.fields.email.validations.invalid'')
              else None)),
       firstname = required t ''tenants:common.form.fields.firstname.validations.required''
                     (field values ''firstname''),
       lastname = required t ''tenants:common.form.fields.lastname.validations.required''
                    (field values ''lastname''),
       password = required t ''tenants:common.form.fields.password.validations.required''
                    (field values ''password''),
       username = required t ''tenants:common.form.fields.username.validations.required''
                    (field values ''username'') \<rparr>"

text \<open>The form library submits only values for which \<open>handleValidate\<close> reports no error.\<close>

definition accepted :: "i18n \<Rightarrow> (string \<Rightarrow> bool) \<Rightarrow> AddTenantFormValues \<Rightarrow> bool" where
  "accepted t FormValidation_email values =
     (handleValidate t FormValidation_email values =
        \<lparr> domain = None, email = None, firstname = None, lastname = None,
          password = None, username = None \<rparr>)"

text \<open>The request payload, as the object literal that \<open>handleSubmit\<close> builds.\<close>

datatype json = JUndefined | JString string | JArray "json list" | JObject "(string \<times> json) list"

definition js :: "string option \<Rightarrow> json" where
  "js v = (case v of None \<Rightarrow> JUndefined | Some s \<Rightarrow> JString s)"

definition get :: "json \<Rightarrow> string \<Rightarrow> json option" where
  "get j k = (case j of JObject kvs \<Rightarrow> map_of kvs k | _ \<Rightarrow> None)"

definition keys :: "json \<Rightarrow> string list" where
  "keys j = (case j of JObject kvs \<Rightarrow> map fst kvs | _ \<Rightarrow> [])"

text \<open>
  \<open>const { domain, organizationName, ...rest } = values\<close>, then the payload with
  \<open>{ ...rest, provisioningMethod: TenantStatus.INLINE_PASSWORD }\<close> as the only element of
  \<open>owners\<close>. \<open>onSubmit\<close> is an optional prop: calling it when it was not supplied throws.
  The result is the payload that \<open>onSubmit\<close> receives.
\<close>

definition AddTenantRequestPayload :: "string \<Rightarrow> AddTenantFormValues \<Rightarrow> json" where
  "AddTenantRequestPayload INLINE_PASSWORD values =
     (let rest = AList.delete ''organizationName'' (AList.delete ''domain'' values)
      in JObject
           [ (''domain'', js (field values ''domain'')),
             (''name'', js (field values ''organizationName'')),
             (''owners'',
                JArray [ JObject (AList.update ''provisioningMethod'' (JString INLINE_PASSWORD)
                                    (map (\<lambda>(k, v). (k, JString v)) rest)) ]) ])"

definition AddTenantForm_handleSubmit ::
  "string \<Rightarrow> bool \<Rightarrow> AddTenantFormValues \<Rightarrow> js_error + json" where
  "AddTenantForm_handleSubmit INLINE_PASSWORD onSubmit_supplied values =
     (let payload = AddTenantRequestPayload INLINE_PASSWORD values
      in if onSubmit_supplied then Inr payload else Inl TypeError)"

text \<open>A filled-in form, used to run the handlers on a concrete input.\<close>

definition example_values :: AddTenantFormValues where
  "example_values =
     [ (''organizationName'', ''Acme''), (''domain'', ''acme.com''),
       (''firstname'', ''Ada''), (''lastname'', ''King''),
       (''username'', ''ada@acme.com''), (''email'', ''ada@acme.com''),
       (''password'', ''S3cret!pw'') ]"

text \<open>The same form with the organization name left empty.\<close>

definition example_values_no_name :: AddTenantFormValues where
  "example_values_no_name =
     [ (''domain'', ''acme.com''),
       (''firstname'', ''Ada''), (''lastname'', ''King''),
       (''username'', ''ada@acme.com''), (''email'', ''ada@acme.com''),
       (''password'', ''S3cret!pw'') ]"

section \<open>Organization discovery: assigning email domains to an organization\<close>

subsection \<open>Models\<close>

record organization =
  org_id :: string
  org_name :: string

record link =
  rel :: string
  href :: string

record organization_list_response =
  response_organizations :: "organization list option"
  links :: "link list option"

record GetOrganizationsParams =
  after :: "string option"
  filter_param :: "string option"
  limit :: nat
  shouldFetch :: bool

datatype AlertLevels = INFO | SUCCESS | WARNING | ERROR

record alert =
  description :: string
  level :: AlertLevels
  message :: string

text \<open>
  The component's state hooks, and the alerts dispatched to the store so far
  (oldest first).
\<close>

record assigner_state =
  emailDomains :: "string list"
  isEmailDomainDataError :: bool
  isEmailDomainAvailableError :: bool
  organizations :: "organization list"
  hasMoreOrganizations :: bool
  inputValue :: string
  afterCursor :: "string option"
  params :: GetOrganizationsParams
  alerts :: "alert list"

definition initial_state :: assigner_state where
  "initial_state =
     \<lparr> emailDomains = [], isEmailDomainDataError = False, isEmailDomainAvailableError = False,
       organizations = [], hasMoreOrganizations = True, inputValue = [], afterCursor = None,
       params = \<lparr> after = None, filter_param = None, limit = 15, shouldFetch = True \<rparr>,
       alerts = [] \<rparr>"

definition dispatch_addAlert :: "alert \<Rightarrow> assigner_state \<Rightarrow> assigner_state" where
  "dispatch_addAlert a s = s\<lparr> alerts := alerts s @ [a] \<rparr>"

subsection \<open>String.prototype.split with a string separator\<close>

function split_from :: "string \<Rightarrow> string \<Rightarrow> string \<Rightarrow> string list" where
  "split_from sep cur [] = [cur]"
| "split_from sep cur (x # xs) =
     (if sep \<noteq> [] \<and> take (length sep) (x # xs) = sep
      then cur # split_from sep [] (drop (length sep) (x # xs))
      else split_from sep (cur @ [x]) xs)"
  by pat_completeness auto
termination
  by (relation "measure (\<lambda>(sep, cur, s). length s)") auto

definition split :: "string \<Rightarrow> string \<Rightarrow> string list" where
  "split s sep = (if sep = [] then map (\<lambda>c. [c]) s else split_from sep [] s)"

text \<open>\<open>xs[i]\<close> of a JavaScript array: \<open>undefined\<close> out of range.\<close>

definition at_index :: "'a list \<Rightarrow> nat \<Rightarrow> 'a option" where
  "at_index xs i = (if i < length xs then Some (xs ! i) else None)"

subsection \<open>The paginated organization loader\<close>

text \<open>
  The body of \<open>forEach\<close> over the links of the response: \<open>st\<close> is the state,
  \<open>nextFound\<close> the local flag.
\<close>

definition scan_link :: "link \<Rightarrow> assigner_state \<times> bool \<Rightarrow> assigner_state \<times> bool" where
  "scan_link l = (\<lambda>(st, nextFound).
     if rel l = ''next''
     then (let nextCursor = at_index (split (href l) ''after='') 1
           in (st\<lparr> afterCursor := nextCursor,
                   hasMoreOrganizations := \<not> falsy nextCursor \<rparr>, True))
     else (st, nextFound))"

text \<open>
  The effect that runs when \<open>organizationListResponse\<close> changes. It returns at once
  unless a response is there and the request is neither loading nor validating.
\<close>

definition onOrganizationListResponse ::
  "organization_list_response option \<Rightarrow> bool \<Rightarrow> bool \<Rightarrow> assigner_state \<Rightarrow> assigner_state" where
  "onOrganizationListResponse organizationListResponse isLoading isValidating s =
     (case organizationListResponse of
        None \<Rightarrow> s
      | Some response \<Rightarrow>
         (if isLoading \<or> isValidating then s
          else
           (let s1 = s\<lparr> params := (params s)\<lparr> shouldFetch := False \<rparr> \<rparr>;
                updatedOrganizationList = response_organizations response;
                s2 = s1\<lparr> organizations := organizations s1 @
                        (case updatedOrganizationList of None \<Rightarrow> [] | Some os \<Rightarrow> os) \<rparr>;
                (s3, nextFound) =
                   fold scan_link (case links response of None \<Rightarrow> [] | Some ls \<Rightarrow> ls)
                     (s2, False)
            in if \<not> nextFound
               then s3\<lparr> afterCursor := Some [], hasMoreOrganizations := False \<rparr>
               else s3)))"

text \<open>
  The error of a failed request: \<open>error?.response?.data?.description\<close> and
  \<open>error?.response?.data?.message\<close> read through the optional chain.
\<close>

record error_data =
  data_description :: "string option"
  data_message :: "string option"

record error_response =
  data :: "error_data option"

record request_error =
  response :: "error_response option"

definition response_data :: "request_error \<Rightarrow> error_data option" where
  "response_data e = (case response e of None \<Rightarrow> None | Some r \<Rightarrow> data r)"

definition server_description :: "request_error \<Rightarrow> string option" where
  "server_description e = (case response_data e of None \<Rightarrow> None | Some d \<Rightarrow> data_description d)"

definition server_message :: "request_error \<Rightarrow> string option" where
  "server_message e = (case response_data e of None \<Rightarrow> None | Some d \<Rightarrow> data_message d)"

text \<open>\<open>a ?? b\<close>: \<open>b\<close> only when \<open>a\<close> is \<open>null\<close> or \<open>undefined\<close>.\<close>

definition nullish :: "string option \<Rightarrow> string \<Rightarrow> string" where
  "nullish a b = (case a of None \<Rightarrow> b | Some v \<Rightarrow> v)"

text \<open>The effect that runs when \<open>organizationsFetchRequestError\<close> changes.\<close>

definition onOrganizationsFetchRequestError ::
  "i18n \<Rightarrow> request_error option \<Rightarrow> assigner_state \<Rightarrow> assigner_state" where
  "onOrganizationsFetchRequestError t organizationsFetchRequestError s =
     (case organizationsFetchRequestError of
        None \<Rightarrow> s
      | Some e \<Rightarrow>
         (if \<not> falsy (server_description e)
          then dispatch_addAlert
                 \<lparr> description = nullish (server_description e)
                     (t ''organizations:notifications.getOrganizationList.error.description''),
                   level = ERROR,
                   message = nullish (server_message e)
                     (t ''organizations:notifications.getOrganizationList.error.message'') \<rparr> s
          else dispatch_addAlert
                 \<lparr> description =
                     t ''organizations:notifications.getOrganizationList.genericError.description'',
                   level = ERROR,
                   message =
                     t ''organizations:notifications.getOrganizationList.genericError.message'' \<rparr>
                 s))"

definition queryPrefix :: string where
  "queryPrefix = ''name co ''"

definition updateParams :: "string option \<Rightarrow> string \<Rightarrow> assigner_state \<Rightarrow> assigner_state" where
  "updateParams cursor newInputValue s =
     s\<lparr> afterCursor := cursor,
        inputValue := newInputValue,
        params := (params s)
          \<lparr> after := (if falsy cursor then None else cursor),
            filter_param := Some (if newInputValue \<noteq> [] then queryPrefix @ newInputValue else []),
            shouldFetch := True \<rparr> \<rparr>"

text \<open>
  The function that \<open>debounce(..., 100)\<close> wraps in \<open>handleInputChange\<close>: it runs once
  for a burst of input events, with the last event's data.
\<close>

definition handleInputChange :: "string option \<Rightarrow> assigner_state \<Rightarrow> assigner_state" where
  "handleInputChange data' s =
     (let newInputValue = nullish data' []
      in updateParams (Some []) newInputValue (s\<lparr> organizations := [] \<rparr>))"

definition handleOnChange :: "string option \<Rightarrow> assigner_state \<Rightarrow> assigner_state" where
  "handleOnChange v s =
     (if falsy v then updateParams (Some []) [] (s\<lparr> organizations := [] \<rparr>) else s)"

definition loadMoreOrganizations :: "assigner_state \<Rightarrow> assigner_state" where
  "loadMoreOrganizations s =
     (if \<not> hasMoreOrganizations s then s else updateParams (afterCursor s) (inputValue s) s)"

text \<open>
  The options shown: the accumulated organizations that are not among the already
  discoverable ones (given by their \<open>organizationId\<close>; \<open>None\<close> while that list is not
  loaded).
\<close>

definition filteredDiscoverableOrganizations ::
  "string list option \<Rightarrow> organization list \<Rightarrow> organization list" where
  "filteredDiscoverableOrganizations discoverableOrganizations orgs =
     filter (\<lambda>organization.
        \<not> (case discoverableOrganizations of
             None \<Rightarrow> False
           | Some ds \<Rightarrow> list_ex (\<lambda>organizationId. organizationId = org_id organization) ds))
       orgs"

subsection \<open>The email-domain field\<close>

record check_response =
  available :: "bool option"

definition checkEmailDomainError :: "i18n \<Rightarrow> alert" where
  "checkEmailDomainError t =
     \<lparr> description = t ''organizationDiscovery:notifications.checkEmailDomain.error.description'',
       level = ERROR,
       message = t ''organizationDiscovery:notifications.checkEmailDomain.error.message'' \<rparr>"

text \<open>
  \<open>checkEmailDomainAvailability\<close>: the value returned (\<open>None\<close> is \<open>undefined\<close>) and the
  alerts dispatched. \<open>checkEmailDomainAvailable\<close> is the remote call.
\<close>

definition checkEmailDomainAvailability ::
  "i18n \<Rightarrow> (string option \<Rightarrow> check_response option promise) \<Rightarrow> string option
     \<Rightarrow> bool option \<times> alert list" where
  "checkEmailDomainAvailability t checkEmailDomainAvailable emailDomain =
     (let available0 = Some True
      in case checkEmailDomainAvailable emailDomain of
           Resolved resp \<Rightarrow> ((case resp of None \<Rightarrow> None | Some r \<Rightarrow> available r), [])
         | Rejected \<Rightarrow> (available0, [checkEmailDomainError t]))"

definition last_entry :: "string list \<Rightarrow> string option" where
  "last_entry emailDomainList =
     (if emailDomainList = [] then None else Some (last emailDomainList))"

text \<open>
  \<open>validateEmailDomain\<close>: the array passed in is mutated in place by \<open>pop\<close>; the result is
  the array afterwards and the new state. \<open>pop\<close> on an empty array leaves it empty.
\<close>

definition validateEmailDomain ::
  "i18n \<Rightarrow> (string option \<Rightarrow> bool) \<Rightarrow> (string option \<Rightarrow> check_response option promise)
     \<Rightarrow> string list \<Rightarrow> assigner_state \<Rightarrow> string list \<times> assigner_state" where
  "validateEmailDomain t FormValidation_domain checkEmailDomainAvailable emailDomainList s =
     (let isEmailDomainValid = FormValidation_domain (last_entry emailDomainList)
      in if \<not> isEmailDomainValid
         then (butlast emailDomainList, s\<lparr> isEmailDomainDataError := True \<rparr>)
         else
          (let (isEmailDomainAvailable, dispatched) =
                 checkEmailDomainAvailability t checkEmailDomainAvailable
                   (last_entry emailDomainList);
               s1 = s\<lparr> alerts := alerts s @ dispatched \<rparr>
           in if isEmailDomainAvailable \<noteq> Some True
              then (butlast emailDomainList, s1\<lparr> isEmailDomainAvailableError := True \<rparr>)
              else (emailDomainList, s1)))"

text \<open>
  \<open>onChange\<close> of the multi-value field, once validation has settled. \<open>setEmailDomains(value)\<close>
  stores the very array that \<open>validateEmailDomain(value)\<close> then mutates, so the stored
  list is the array as validation leaves it.
\<close>

definition onChange ::
  "i18n \<Rightarrow> (string option \<Rightarrow> bool) \<Rightarrow> (string option \<Rightarrow> check_response option promise)
     \<Rightarrow> string list \<Rightarrow> assigner_state \<Rightarrow> assigner_state" where
  "onChange t FormValidation_domain checkEmailDomainAvailable v s =
     (let s1 = s\<lparr> emailDomains := v \<rparr>
      in if length v > 0
         then (let (v', s2) =
                     validateEmailDomain t FormValidation_domain checkEmailDomainAvailable v s1
               in s2\<lparr> emailDomains := v' \<rparr>)
         else s1)"

definition onInputChange :: "assigner_state \<Rightarrow> assigner_state" where
  "onInputChange s = s\<lparr> isEmailDomainDataError := False, isEmailDomainAvailableError := False \<rparr>"

subsection \<open>Submitting\<close>



text \<open>
  \<open>handleSubmit\<close> up to the request: \<open>organizations.find(...)\<close> yields \<open>undefined\<close> when
  no organization has the submitted name, and reading \<open>.id\<close> of it throws. Otherwise
  \<open>addOrganizationEmailDomain\<close> is called with the returned pair.
\<close>

definition AddOrganizationDiscoveryDomains_handleSubmit ::
  "string option \<Rightarrow> assigner_state \<Rightarrow> js_error + (string \<times> string list)" where
  "AddOrganizationDiscoveryDomains_handleSubmit organizationName s =
     (case find (\<lambda>organization. Some (org_name organization) = organizationName)
             (organizations s) of
        None \<Rightarrow> Inl TypeError
      | Some organization \<Rightarrow> Inr (org_id organization, emailDomains s))"

text \<open>
  The continuation of the request: a success alert and a redirect to the organization's
  page (recorded by the organization id that replaces \<open>:id\<close> in the path), or an error alert.
\<close>

definition addEmailDomains_settled ::
  "i18n \<Rightarrow> unit promise \<Rightarrow> string \<Rightarrow> assigner_state \<Rightarrow> assigner_state \<times> string option" where
  "addEmailDomains_settled t outcome organizationId s =
     (case outcome of
        Resolved _ \<Rightarrow>
          (dispatch_addAlert
             \<lparr> description =
                 t ''organizationDiscovery:notifications.addEmailDomains.success.description'',
               level = SUCCESS,
               message =
                 t ''organizationDiscovery:notifications.addEmailDomains.success.message'' \<rparr> s,
           Some organizationId)
      | Rejected \<Rightarrow>
          (dispatch_addAlert
             \<lparr> description =
                 t ''organizationDiscovery:notifications.addEmailDomains.error.description'',
               level = ERROR,
               message =
                 t ''organizationDiscovery:notifications.addEmailDomains.error.message'' \<rparr> s,
           None))"

section \<open>Properties of the tenant creation form\<close>

subsection \<open>Index functions\<close>

lemma length_takeWhile_stops: "\<exists>x\<in>set xs. \<not> P x \<Longrightarrow> length (takeWhile P xs) < length xs"
  by (induction xs) auto

lemma lastIndexOf_le_0: "lastIndexOf s c \<le> 0 \<longleftrightarrow> c \<notin> set (tl s)"
proof (cases s)
  case Nil then show ?thesis by (simp add: lastIndexOf_def)
next
  case (Cons y ys)
  have full: "c \<notin> set ys \<Longrightarrow> takeWhile (\<lambda>x. x \<noteq> c) (rev ys) = rev ys"
    by auto
  have part: "c \<in> set ys \<Longrightarrow> length (takeWhile (\<lambda>x. x \<noteq> c) (rev ys)) < length ys"
    using length_takeWhile_stops [of "rev ys" "\<lambda>x. x \<noteq> c"] by simp
  show ?thesis
    using Cons full part by (auto simp: lastIndexOf_def takeWhile_append)
qed

lemma indexOf_eq_0: "indexOf s c = 0 \<longleftrightarrow> (\<exists>rest. s = c # rest)"
  by (cases s) (auto simp: indexOf_def)

lemma in_tl_iff_nth: "c \<in> set (tl s) \<longleftrightarrow> (\<exists>i. 0 < i \<and> i < length s \<and> s ! i = c)"
proof (cases s)
  case Nil then show ?thesis by simp
next
  case (Cons y ys)
  show ?thesis
  proof
    assume "c \<in> set (tl s)"
    then obtain j where "j < length ys" "ys ! j = c" using Cons by (auto simp: in_set_conv_nth)
    then have "0 < Suc j \<and> Suc j < length s \<and> s ! Suc j = c" using Cons by simp
    then show "\<exists>i. 0 < i \<and> i < length s \<and> s ! i = c" by blast
  next
    assume "\<exists>i. 0 < i \<and> i < length s \<and> s ! i = c"
    then obtain i where i: "0 < i" "i < length s" "s ! i = c" by blast
    then obtain j where "i = Suc j" by (cases i) auto
    with i Cons show "c \<in> set (tl s)" by (auto simp: in_set_conv_nth)
  qed
qed

subsection \<open>Memoized validators\<close>

lemma memoize_miss: "cache x = None \<Longrightarrow> memoize f cache x = (f x, cache(x \<mapsto> fst (f x)))"
  by (simp add: memoize_def split: prod.splits)

lemma memoize_hit: "cache x = Some r \<Longrightarrow> memoize f cache x = ((r, []), cache)"
  by (simp add: memoize_def)

lemma memo_cache_sound:
  "memo_cache f hist x = Some r \<Longrightarrow> \<exists>h. r = fst (f h x)"
proof (induction hist arbitrary: x r)
  case Nil then show ?case by simp
next
  case (Cons c hist)
  obtain h w where c: "c = (h, w)" by (cases c)
  let ?c = "memo_cache f hist"
  show ?case
  proof (cases "?c w")
    case None
    then have upd: "memo_cache f (c # hist) = ?c(w \<mapsto> fst (f h w))"
      by (simp add: c memoize_miss)
    show ?thesis
    proof (cases "x = w")
      case True
      with Cons.prems upd have "r = fst (f h x)" by simp
      then show ?thesis by blast
    next
      case False
      with Cons.prems upd have "?c x = Some r" by simp
      then show ?thesis by (rule Cons.IH)
    qed
  next
    case (Some r')
    then have "memo_cache f (c # hist) = ?c"
      by (simp add: c memoize_hit)
    with Cons.prems have "?c x = Some r" by simp
    then show ?thesis by (rule Cons.IH)
  qed
qed

text \<open>
  What a memoized call returns was computed by the function itself, now or earlier,
  and it makes the calls of the function, or none.
\<close>

lemma memoize_result:
  "\<exists>h'. fst (fst (memoize (f h) (memo_cache f hist) x)) = fst (f h' x)"
proof (cases "memo_cache f hist x")
  case None
  then have "fst (fst (memoize (f h) (memo_cache f hist) x)) = fst (f h x)"
    by (simp add: memoize_miss)
  then show ?thesis by blast
next
  case (Some r)
  then have "fst (fst (memoize (f h) (memo_cache f hist) x)) = r"
    by (simp add: memoize_hit)
  with memo_cache_sound [OF Some] show ?thesis by simp
qed

lemma memoize_calls:
  "snd (fst (memoize g cache x)) = [] \<or> snd (fst (memoize g cache x)) = snd (g x)"
  by (cases "cache x") (simp_all add: memoize_miss memoize_hit)

subsection \<open>The tenant-domain validator\<close>

lemma validateDomain_body_empty:
  "validateDomain_body t RegExp cfg avail [] = (Resolved None, [])"
  by (simp add: validateDomain_body_def)

lemma validateDomain_body_missing_extension:
  "v \<noteq> [] \<Longrightarrow> isTenantDomainDotExtensionMandatory cfg \<Longrightarrow> CHR ''.'' \<notin> set (tl v) \<Longrightarrow>
   validateDomain_body t RegExp cfg avail v = (Resolved (Some (t domainMandatoryExtension)), [])"
  by (simp add: validateDomain_body_def lastIndexOf_le_0)

lemma validateDomain_body_leading_dot:
  "fst (validateDomain_body t RegExp cfg avail (CHR ''.'' # rest)) \<noteq> Resolved None \<and>
   snd (validateDomain_body t RegExp cfg avail (CHR ''.'' # rest)) = []"
  by (simp add: validateDomain_body_def indexOf_eq_0 split: tested.splits bool.splits)

lemma validateDomain_body_leading_dot_error:
  "test_configured RegExp (tenantDomainRegex cfg) (CHR ''.'' # rest) \<noteq> SyntaxError \<Longrightarrow>
   fst (validateDomain_body t RegExp cfg avail (CHR ''.'' # rest))
     \<in> {Resolved (Some (t domainMandatoryExtension)), Resolved (Some (t domainInvalidPattern)),
         Resolved (Some (t domainStartingWithDot))}"
  by (simp add: validateDomain_body_def indexOf_eq_0 split: tested.splits bool.splits)

text \<open>
  A memoized validation whose body gives the same answer whatever the backend says gives
  that answer, and calls the backend only if the body does.
\<close>

lemma validateDomain_memoized:
  assumes "\<And>avail'. validateDomain_body t RegExp cfg avail' v = (r, [])"
  shows "fst (validateDomain t RegExp cfg avail (validateDomain_cache t RegExp cfg hist) v) = (r, [])"
proof -
  let ?res = "fst (validateDomain t RegExp cfg avail (validateDomain_cache t RegExp cfg hist) v)"
  obtain h' where "fst ?res = fst (validateDomain_body t RegExp cfg h' v)"
    using memoize_result [of "validateDomain_body t RegExp cfg" avail hist v]
    by (auto simp: validateDomain_def validateDomain_cache_def)
  then have 1: "fst ?res = r" using assms by simp
  have "snd ?res = [] \<or> snd ?res = snd (validateDomain_body t RegExp cfg avail v)"
    using memoize_calls [of "validateDomain_body t RegExp cfg avail"]
    by (simp add: validateDomain_def)
  then have 2: "snd ?res = []" using assms by auto
  from 1 2 show ?thesis by (simp add: prod_eq_iff)
qed

text \<open>
  Claim C4. When the dot extension is mandatory, a non-empty domain that has no \<open>.\<close> at
  an index greater than 0 fails with the mandatory-extension message, and
  \<open>getTenantDomainAvailability\<close> is not called for it (the list of calls is empty). This
  holds whatever was validated before, whatever the patterns are and whatever the backend
  would answer.
\<close>

theorem validateDomain_missing_extension:
  assumes "v \<noteq> []"
    and "isTenantDomainDotExtensionMandatory cfg"
    and "\<not> (\<exists>i. 0 < i \<and> i < length v \<and> v ! i = CHR ''.'')"
  shows "fst (validateDomain t RegExp cfg getTenantDomainAvailability
                (validateDomain_cache t RegExp cfg hist) v)
           = (Resolved (Some (t domainMandatoryExtension)), [])"
proof -
  have "CHR ''.'' \<notin> set (tl v)" using assms(3) by (simp add: in_tl_iff_nth)
  then show ?thesis
    using assms(1,2) by (intro validateDomain_memoized validateDomain_body_missing_extension)
qed


theorem validateDomain_missing_extension_witness:
  "''localhost'' \<noteq> [] \<and>
   isTenantDomainDotExtensionMandatory
     \<lparr> tenantDomainRegex = None, tenantDomainIllegalCharactersRegex = None,
       isTenantDomainDotExtensionMandatory = True \<rparr> \<and>
   \<not> (\<exists>i. 0 < i \<and> i < length ''localhost'' \<and> ''localhost'' ! i = CHR ''.'') \<and>
   fst (validateDomain (\<lambda>k. k) (\<lambda>p. None)
          \<lparr> tenantDomainRegex = None, tenantDomainIllegalCharactersRegex = None,
            isTenantDomainDotExtensionMandatory = True \<rparr>
          (\<lambda>d. Resolved True)
          (validateDomain_cache (\<lambda>k. k) (\<lambda>p. None)
             \<lparr> tenantDomainRegex = None, tenantDomainIllegalCharactersRegex = None,
               isTenantDomainDotExtensionMandatory = True \<rparr>
             [(\<lambda>d. Resolved True, ''example.com'')]) ''localhost'')
     = (Resolved (Some domainMandatoryExtension), [])"
proof -
  have h: "\<not> (\<exists>i. 0 < i \<and> i < length ''localhost'' \<and> ''localhost'' ! i = CHR ''.'')"
    using in_tl_iff_nth [of "CHR ''.''" "''localhost''"] by simp
  show ?thesis
    using h validateDomain_missing_extension [OF _ _ h, of
        "\<lparr> tenantDomainRegex = None, tenantDomainIllegalCharactersRegex = None,
            isTenantDomainDotExtensionMandatory = True \<rparr>" "\<lambda>k. k" "\<lambda>p. None" "\<lambda>d. Resolved True"
        "[(\<lambda>d. Resolved True, ''example.com'')]"]
    by simp
qed

lemma validateDomain_never_passes:
  assumes "\<And>avail'. fst (validateDomain_body t RegExp cfg avail' v) \<in> A"
    and "\<And>avail'. snd (validateDomain_body t RegExp cfg avail' v) = []"
  shows "fst (fst (validateDomain t RegExp cfg avail (validateDomain_cache t RegExp cfg hist) v)) \<in> A
       \<and> snd (fst (validateDomain t RegExp cfg avail (validateDomain_cache t RegExp cfg hist) v)) = []"
proof -
  let ?res = "fst (validateDomain t RegExp cfg avail (validateDomain_cache t RegExp cfg hist) v)"
  obtain h' where "fst ?res = fst (validateDomain_body t RegExp cfg h' v)"
    using memoize_result [of "validateDomain_body t RegExp cfg" avail hist v]
    by (auto simp: validateDomain_def validateDomain_cache_def)
  then have 1: "fst ?res \<in> A" using assms(1) by simp
  have "snd ?res = [] \<or> snd ?res = snd (validateDomain_body t RegExp cfg avail v)"
    using memoize_calls [of "validateDomain_body t RegExp cfg avail"]
    by (simp add: validateDomain_def)
  then have 2: "snd ?res = []" using assms(2) by auto
  from 1 2 show ?thesis by simp
qed

text \<open>
  Claim C5. A non-empty domain that begins with \<open>.\<close> never passes the tenant-domain
  validator and never reaches the availability check, whatever the mandatory-extension
  flag and the two configured patterns are (present or absent). Whenever the configured
  domain pattern is one the engine accepts (or none is configured), the validator resolves
  with an error message: the mandatory-extension, the invalid-pattern or the
  starting-with-dot message. The illegal-characters pattern is not consulted for such a
  domain.
\<close>

theorem validateDomain_leading_dot:
  assumes "v \<noteq> []" and "hd v = CHR ''.''"
  shows "fst (fst (validateDomain t RegExp cfg getTenantDomainAvailability
                     (validateDomain_cache t RegExp cfg hist) v)) \<noteq> Resolved None
       \<and> snd (fst (validateDomain t RegExp cfg getTenantDomainAvailability
                     (validateDomain_cache t RegExp cfg hist) v)) = []
       \<and> (test_configured RegExp (tenantDomainRegex cfg) v \<noteq> SyntaxError \<longrightarrow>
            fst (fst (validateDomain t RegExp cfg getTenantDomainAvailability
                        (validateDomain_cache t RegExp cfg hist) v))
              \<in> {Resolved (Some (t domainMandatoryExtension)),
                  Resolved (Some (t domainInvalidPattern)),
                  Resolved (Some (t domainStartingWithDot))})"
proof -
  obtain rest where v: "v = CHR ''.'' # rest" using assms by (cases v) auto
  let ?r = "fst (fst (validateDomain t RegExp cfg getTenantDomainAvailability
                     (validateDomain_cache t RegExp cfg hist) v))"
  let ?c = "snd (fst (validateDomain t RegExp cfg getTenantDomainAvailability
                     (validateDomain_cache t RegExp cfg hist) v))"
  have "?r \<in> - {Resolved None} \<and> ?c = []"
    by (rule validateDomain_never_passes) (simp_all add: v validateDomain_body_leading_dot)
  moreover have "?r \<in> {Resolved (Some (t domainMandatoryExtension)),
                  Resolved (Some (t domainInvalidPattern)),
                  Resolved (Some (t domainStartingWithDot))}"
    if "test_configured RegExp (tenantDomainRegex cfg) v \<noteq> SyntaxError"
    using validateDomain_never_passes [of t RegExp cfg v _ getTenantDomainAvailability hist]
      validateDomain_body_leading_dot_error [of RegExp cfg rest t] validateDomain_body_leading_dot [of t RegExp cfg _ rest] that
    unfolding v by blast
  ultimately show ?thesis by simp
qed

theorem validateDomain_leading_dot_witness:
  "''.acme.com'' \<noteq> [] \<and> hd ''.acme.com'' = CHR ''.'' \<and>
   test_configured (\<lambda>p. Some (\<lambda>s. True))
     (tenantDomainRegex \<lparr> tenantDomainRegex = Some ''^.*$'',
        tenantDomainIllegalCharactersRegex = None,
        isTenantDomainDotExtensionMandatory = True \<rparr>) ''.acme.com'' \<noteq> SyntaxError \<and>
   fst (validateDomain (\<lambda>k. k) (\<lambda>p. Some (\<lambda>s. True))
          \<lparr> tenantDomainRegex = Some ''^.*$'', tenantDomainIllegalCharactersRegex = None,
            isTenantDomainDotExtensionMandatory = True \<rparr>
          (\<lambda>d. Resolved True)
          (validateDomain_cache (\<lambda>k. k) (\<lambda>p. Some (\<lambda>s. True))
             \<lparr> tenantDomainRegex = Some ''^.*$'', tenantDomainIllegalCharactersRegex = None,
               isTenantDomainDotExtensionMandatory = True \<rparr> [])
          ''.acme.com'')
     = (Resolved (Some domainStartingWithDot), [])"
proof -
  have h: "''.acme.com'' \<noteq> []" "hd ''.acme.com'' = CHR ''.''" by simp_all
  show ?thesis
    using validateDomain_leading_dot [OF h, of "\<lambda>k. k" "\<lambda>p. Some (\<lambda>s. True)"
        "\<lparr> tenantDomainRegex = Some ''^.*$'', tenantDomainIllegalCharactersRegex = None,
            isTenantDomainDotExtensionMandatory = True \<rparr>" "\<lambda>d. Resolved True" "[]"]
    by (simp add: validateDomain_def validateDomain_cache_def validateDomain_body_def memoize_def
          test_configured_def lastIndexOf_def indexOf_def)
qed

subsection \<open>Empty input\<close>

lemma validateOrganizationName_body_empty:
  "validateOrganizationName_body t RegExp rx [] = (Resolved None, [])"
  by (simp add: validateOrganizationName_body_def)

lemma validateOrganizationName_empty:
  "fst (validateOrganizationName t RegExp rx (validateOrganizationName_cache t RegExp rx hist) [])
     = (Resolved None, [])"
proof -
  let ?f = "\<lambda>_::unit. validateOrganizationName_body t RegExp rx"
  let ?res = "fst (memoize (?f ()) (memo_cache ?f hist) [])"
  obtain h' :: unit where "fst ?res = fst (?f h' [])"
    using memoize_result [of ?f "()" hist "[]"] by blast
  then have 1: "fst ?res = Resolved None"
    by (simp add: validateOrganizationName_body_empty)
  have "snd ?res = [] \<or> snd ?res = snd (?f () [])"
    by (rule memoize_calls)
  then have 2: "snd ?res = []"
    by (auto simp: validateOrganizationName_body_empty)
  from 1 2 show ?thesis
    by (simp add: validateOrganizationName_def validateOrganizationName_cache_def prod_eq_iff)
qed

lemma handleValidate_ignores_organizationName:
  "handleValidate t FormValidation_email (AList.update ''organizationName'' n values)
     = handleValidate t FormValidation_email values
   \<and> handleValidate t FormValidation_email (AList.delete ''organizationName'' values)
     = handleValidate t FormValidation_email values"
  by (simp add: handleValidate_def field_def update_conv' delete_conv')

text \<open>
  Claim C9, as the code has it. On the empty string the three per-field validators
  (tenant domain, username against the userstore pattern, organization name) resolve
  without an error and without a remote call. That a value is present is checked by
  \<open>handleValidate\<close> at submit time for the domain, firstname, lastname, email, password and
  username: each gets its required-message exactly when it is missing or empty (a present
  email that is not a valid address gets the invalid-message). \<open>handleValidate\<close> does not
  look at the organization name: its result is the same whatever that field holds, and
  whether or not it is there.
\<close>

theorem validators_pass_empty_input:
  "fst (validateDomain t RegExp cfg getTenantDomainAvailability
          (validateDomain_cache t RegExp cfg hist) []) = (Resolved None, [])
   \<and> validateUsernameAgainstUserstoreRegExp t getUsertoreUsernameValidationPattern
        validateInputAgainstRegEx FormValidation_email [] = Resolved None
   \<and> fst (validateOrganizationName t RegExp ORGANIZATION_NAME_REGEX
            (validateOrganizationName_cache t RegExp ORGANIZATION_NAME_REGEX hist') [])
        = (Resolved None, [])
   \<and> domain (handleValidate t FormValidation_email values)
        = (if map_of values ''domain'' = None \<or> map_of values ''domain'' = Some []
           then Some (t ''tenants:common.form.fields.domain.validations.required'') else None)
   \<and> username (handleValidate t FormValidation_email values)
        = (if map_of values ''username'' = None \<or> map_of values ''username'' = Some []
           then Some (t ''tenants:common.form.fields.username.validations.required'') else None)
   \<and> firstname (handleValidate t FormValidation_email values)
        = (if map_of values ''firstname'' = None \<or> map_of values ''firstname'' = Some []
           then Some (t ''tenants:common.form.fields.firstname.validations.required'') else None)
   \<and> lastname (handleValidate t FormValidation_email values)
        = (if map_of values ''lastname'' = None \<or> map_of values ''lastname'' = Some []
           then Some (t ''tenants:common.form.fields.lastname.validations.required'') else None)
   \<and> password (handleValidate t FormValidation_email values)
        = (if map_of values ''password'' = None \<or> map_of values ''password'' = Some []
           then Some (t ''tenants:common.form.fields.password.validations.required'') else None)
   \<and> email (handleValidate t FormValidation_email values)
        = (case map_of values ''email'' of
             None \<Rightarrow> Some (t ''tenants:common.form.fields.email.validations.required'')
           | Some e \<Rightarrow>
               if e = [] then Some (t ''tenants:common.form.fields.email.validations.required'')
               else if FormValidation_email e then None
               else Some (t ''tenants:common.form.fields.email.validations.invalid''))
   \<and> handleValidate t FormValidation_email (AList.update ''organizationName'' n values)
        = handleValidate t FormValidation_email values
   \<and> handleValidate t FormValidation_email (AList.delete ''organizationName'' values)
        = handleValidate t FormValidation_email values"
proof -
  have "fst (validateDomain t RegExp cfg getTenantDomainAvailability
          (validateDomain_cache t RegExp cfg hist) []) = (Resolved None, [])"
    by (rule validateDomain_memoized) (rule validateDomain_body_empty)
  moreover have "validateUsernameAgainstUserstoreRegExp t getUsertoreUsernameValidationPattern
        validateInputAgainstRegEx FormValidation_email [] = Resolved None"
    by (simp add: validateUsernameAgainstUserstoreRegExp_def)
  moreover note validateOrganizationName_empty [of t RegExp ORGANIZATION_NAME_REGEX hist']
  moreover have "domain (handleValidate t FormValidation_email values)
        = (if map_of values ''domain'' = None \<or> map_of values ''domain'' = Some []
           then Some (t ''tenants:common.form.fields.domain.validations.required'') else None)"
    by (cases "map_of values ''domain''") (simp_all add: handleValidate_def required_def falsy_def field_def)
  moreover have "username (handleValidate t FormValidation_email values)
        = (if map_of values ''username'' = None \<or> map_of values ''username'' = Some []
           then Some (t ''tenants:common.form.fields.username.validations.required'') else None)"
    by (cases "map_of values ''username''") (simp_all add: handleValidate_def required_def falsy_def field_def)
  moreover have "firstname (handleValidate t FormValidation_email values)
        = (if map_of values ''firstname'' = None \<or> map_of values ''firstname'' = Some []
           then Some (t ''tenants:common.form.fields.firstname.validations.required'') else None)"
    by (cases "map_of values ''firstname''") (simp_all add: handleValidate_def required_def falsy_def field_def)
  moreover have "lastname (handleValidate t FormValidation_email values)
        = (if map_of values ''lastname'' = None \<or> map_of values ''lastname'' = Some []
           then Some (t ''tenants:common.form.fields.lastname.validations.required'') else None)"
    by (cases "map_of values ''lastname''") (simp_all add: handleValidate_def required_def falsy_def field_def)
  moreover have "password (handleValidate t FormValidation_email values)
        = (if map_of values ''password'' = None \<or> map_of values ''password'' = Some []
           then Some (t ''tenants:common.form.fields.password.validations.required'') else None)"
    by (cases "map_of values ''password''") (simp_all add: handleValidate_def required_def falsy_def field_def)
  moreover have "email (handleValidate t FormValidation_email values)
        = (case map_of values ''email'' of
             None \<Rightarrow> Some (t ''tenants:common.form.fields.email.validations.required'')
           | Some e \<Rightarrow>
               if e = [] then Some (t ''tenants:common.form.fields.email.validations.required'')
               else if FormValidation_email e then None
               else Some (t ''tenants:common.form.fields.email.validations.invalid''))"
    by (cases "map_of values ''email''") (simp_all add: handleValidate_def field_def)
  moreover note handleValidate_ignores_organizationName [of t FormValidation_email n "values"]
  ultimately show ?thesis by blast
qed

theorem validators_pass_empty_input_witness:
  "fst (validateDomain (\<lambda>k. k) (\<lambda>p. None)
          \<lparr> tenantDomainRegex = Some ''^[a-z0-9.-]+$'', tenantDomainIllegalCharactersRegex = None,
            isTenantDomainDotExtensionMandatory = True \<rparr>
          (\<lambda>d. Rejected)
          (validateDomain_cache (\<lambda>k. k) (\<lambda>p. None)
             \<lparr> tenantDomainRegex = Some ''^[a-z0-9.-]+$'', tenantDomainIllegalCharactersRegex = None,
               isTenantDomainDotExtensionMandatory = True \<rparr> [])
          []) = (Resolved None, [])
   \<and> validateUsernameAgainstUserstoreRegExp (\<lambda>k. k) Rejected (\<lambda>v p. False) (\<lambda>e. False) []
       = Resolved None
   \<and> fst (validateOrganizationName (\<lambda>k. k) (\<lambda>p. None) ''[^a-zA-Z0-9 ]''
            (validateOrganizationName_cache (\<lambda>k. k) (\<lambda>p. None) ''[^a-zA-Z0-9 ]'' []) [])
       = (Resolved None, [])
   \<and> handleValidate (\<lambda>k. k) (\<lambda>e. False) [(''domain'', []), (''email'', ''ada'')]
       = \<lparr> domain = Some ''tenants:common.form.fields.domain.validations.required'',
           email = Some ''tenants:common.form.fields.email.validations.invalid'',
           firstname = Some ''tenants:common.form.fields.firstname.validations.required'',
           lastname = Some ''tenants:common.form.fields.lastname.validations.required'',
           password = Some ''tenants:common.form.fields.password.validations.required'',
           username = Some ''tenants:common.form.fields.username.validations.required'' \<rparr>
   \<and> handleValidate (\<lambda>k. k) (\<lambda>e. True) (AList.update ''organizationName'' [] example_values)
       = handleValidate (\<lambda>k. k) (\<lambda>e. True) example_values"
  using validators_pass_empty_input
    [of "\<lambda>k. k" "\<lambda>p. None"
        "\<lparr> tenantDomainRegex = Some ''^[a-z0-9.-]+$'', tenantDomainIllegalCharactersRegex = None,
           isTenantDomainDotExtensionMandatory = True \<rparr>"
        "\<lambda>d. Rejected" "[]" Rejected "\<lambda>v p. False" "\<lambda>e. False" "''[^a-zA-Z0-9 ]''" "[]"
        "[(''domain'', []), (''email'', ''ada'')]"]
    validators_pass_empty_input
    [of "\<lambda>k. k" "\<lambda>p. None"
        "\<lparr> tenantDomainRegex = Some ''^[a-z0-9.-]+$'', tenantDomainIllegalCharactersRegex = None,
           isTenantDomainDotExtensionMandatory = True \<rparr>"
        "\<lambda>d. Rejected" "[]" Rejected "\<lambda>v p. False" "\<lambda>e. True" "''[^a-zA-Z0-9 ]''" "[]"
        example_values "[]"]
  by (simp add: handleValidate_def required_def falsy_def field_def)

text \<open>
  Claim C9, as stated, fails for the organization name: its presence is enforced neither
  by its validator nor at submit time. A form without an organization name, or with the
  empty string as organization name, is accepted by \<open>handleValidate\<close>, and the validator
  of the field resolves without an error on the empty string.
\<close>

theorem validators_pass_empty_input_counterexample:
  "accepted (\<lambda>k. k) (\<lambda>e. True) example_values_no_name
   \<and> map_of example_values_no_name ''organizationName'' = None
   \<and> accepted (\<lambda>k. k) (\<lambda>e. True) ((''organizationName'', []) # example_values_no_name)
   \<and> map_of ((''organizationName'', []) # example_values_no_name) ''organizationName'' = Some []
   \<and> fst (validateOrganizationName (\<lambda>k. k) (\<lambda>p. None) ''[^a-zA-Z0-9 ]''
            (validateOrganizationName_cache (\<lambda>k. k) (\<lambda>p. None) ''[^a-zA-Z0-9 ]'' []) [])
       = (Resolved None, [])"
  by (simp add: accepted_def handleValidate_def required_def falsy_def field_def
        example_values_no_name_def validateOrganizationName_def
        validateOrganizationName_cache_def memoize_def validateOrganizationName_body_def)

subsection \<open>The create-tenant request payload\<close>

lemma required_None: "required t k v = None \<longleftrightarrow> (\<exists>s. v = Some s \<and> s \<noteq> [])"
  by (cases v) (simp_all add: required_def falsy_def)

lemma accepted_fields:
  assumes "accepted t FormValidation_email values"
  shows "\<exists>d e f l p u. field values ''domain'' = Some d \<and> d \<noteq> [] \<and>
           field values ''email'' = Some e \<and> e \<noteq> [] \<and> FormValidation_email e \<and>
           field values ''firstname'' = Some f \<and> f \<noteq> [] \<and>
           field values ''lastname'' = Some l \<and> l \<noteq> [] \<and>
           field values ''password'' = Some p \<and> p \<noteq> [] \<and>
           field values ''username'' = Some u \<and> u \<noteq> []"
proof -
  from assms have
    "required t ''tenants:common.form.fields.domain.validations.required'' (field values ''domain'') = None"
    "required t ''tenants:common.form.fields.firstname.validations.required'' (field values ''firstname'') = None"
    "required t ''tenants:common.form.fields.lastname.validations.required'' (field values ''lastname'') = None"
    "required t ''tenants:common.form.fields.password.validations.required'' (field values ''password'') = None"
    "required t ''tenants:common.form.fields.username.validations.required'' (field values ''username'') = None"
    and em: "(case field values ''email'' of
            None \<Rightarrow> Some (t ''tenants:common.form.fields.email.validations.required'')
          | Some e \<Rightarrow>
             (if e = [] then Some (t ''tenants:common.form.fields.email.validations.required'')
              else if \<not> FormValidation_email e
              then Some (t ''tenants:common.form.fields.email.validations.invalid'')
              else None)) = None"
    by (simp_all add: accepted_def handleValidate_def)
  moreover from em have "\<exists>e. field values ''email'' = Some e \<and> e \<noteq> [] \<and> FormValidation_email e"
    by (auto split: option.splits if_splits)
  ultimately show ?thesis by (auto simp: required_None)
qed

lemma owner_field:
  "k \<noteq> ''provisioningMethod'' \<Longrightarrow> k \<noteq> ''domain'' \<Longrightarrow> k \<noteq> ''organizationName'' \<Longrightarrow>
   map_of (AList.update ''provisioningMethod'' (JString m)
             (map (\<lambda>(k, v). (k, JString v))
                (AList.delete ''organizationName'' (AList.delete ''domain'' values)))) k
     = map_option JString (map_of values k)"
  by (simp add: update_conv' map_of_map delete_conv')

text \<open>
  Claim C2, as the code has it. For form values that \<open>handleValidate\<close> accepts, the submit
  handler passes to \<open>onSubmit\<close> an object with exactly the keys \<open>domain\<close>, \<open>name\<close> and
  \<open>owners\<close>, in this order. \<open>domain\<close> is the domain string of the form. \<open>name\<close> carries
  the organization name of the form, and is undefined when the form has none (acceptance
  does not ask for one). \<open>owners\<close> is an array with one owner object, which carries the
  username, email, firstname, lastname and password strings of the form and the
  provisioning method, and neither the domain nor the organization name.
\<close>

theorem handleSubmit_payload:
  assumes "accepted t FormValidation_email values"
  shows "\<exists>d u e f l p owner.
           AddTenantForm_handleSubmit INLINE_PASSWORD True values
             = Inr (JObject [ (''domain'', JString d),
                              (''name'', (case map_of values ''organizationName'' of
                                            None \<Rightarrow> JUndefined
                                          | Some n \<Rightarrow> JString n)),
                              (''owners'', JArray [owner]) ])
         \<and> map_of values ''domain'' = Some d
         \<and> get owner ''username'' = Some (JString u) \<and> map_of values ''username'' = Some u
         \<and> get owner ''email'' = Some (JString e) \<and> map_of values ''email'' = Some e
         \<and> get owner ''firstname'' = Some (JString f) \<and> map_of values ''firstname'' = Some f
         \<and> get owner ''lastname'' = Some (JString l) \<and> map_of values ''lastname'' = Some l
         \<and> get owner ''password'' = Some (JString p) \<and> map_of values ''password'' = Some p
         \<and> get owner ''provisioningMethod'' = Some (JString INLINE_PASSWORD)
         \<and> get owner ''domain'' = None \<and> get owner ''organizationName'' = None"
proof -
  from accepted_fields [OF assms] obtain d e f l p u where
    fs: "field values ''domain'' = Some d" "field values ''email'' = Some e"
        "field values ''firstname'' = Some f" "field values ''lastname'' = Some l"
        "field values ''password'' = Some p" "field values ''username'' = Some u"
    by blast
  let ?owner = "JObject (AList.update ''provisioningMethod'' (JString INLINE_PASSWORD)
                  (map (\<lambda>(k, v). (k, JString v))
                     (AList.delete ''organizationName'' (AList.delete ''domain'' values))))"
  have 1: "AddTenantForm_handleSubmit INLINE_PASSWORD True values
             = Inr (JObject [ (''domain'', JString d),
                              (''name'', (case map_of values ''organizationName'' of
                                            None \<Rightarrow> JUndefined
                                          | Some n \<Rightarrow> JString n)),
                              (''owners'', JArray [?owner]) ])"
    using fs(1)
    by (simp add: AddTenantForm_handleSubmit_def AddTenantRequestPayload_def js_def field_def)
  have 2: "get ?owner ''username'' = Some (JString u)" "get ?owner ''email'' = Some (JString e)"
    "get ?owner ''firstname'' = Some (JString f)" "get ?owner ''lastname'' = Some (JString l)"
    "get ?owner ''password'' = Some (JString p)"
    using fs by (simp_all add: get_def owner_field field_def)
  have 3: "get ?owner ''provisioningMethod'' = Some (JString INLINE_PASSWORD)"
    by (simp add: get_def update_conv')
  have 4: "get ?owner ''domain'' = None" "get ?owner ''organizationName'' = None"
    by (simp_all add: get_def update_conv' map_of_map delete_conv')
  from 1 2 3 4 fs show ?thesis unfolding field_def by blast
qed

theorem handleSubmit_payload_witness:
  "accepted (\<lambda>k. k) (\<lambda>e. True) example_values
   \<and> AddTenantForm_handleSubmit ''inline-password'' True example_values
       = Inr (JObject
           [ (''domain'', JString ''acme.com''),
             (''name'', JString ''Acme''),
             (''owners'', JArray [JObject
                [ (''firstname'', JString ''Ada''), (''lastname'', JString ''King''),
                  (''username'', JString ''ada@acme.com''), (''email'', JString ''ada@acme.com''),
                  (''password'', JString ''S3cret!pw''),
                  (''provisioningMethod'', JString ''inline-password'') ]]) ])
   \<and> accepted (\<lambda>k. k) (\<lambda>e. True) example_values_no_name
   \<and> AddTenantForm_handleSubmit ''inline-password'' True example_values_no_name
       = Inr (JObject
           [ (''domain'', JString ''acme.com''),
             (''name'', JUndefined),
             (''owners'', JArray [JObject
                [ (''firstname'', JString ''Ada''), (''lastname'', JString ''King''),
                  (''username'', JString ''ada@acme.com''), (''email'', JString ''ada@acme.com''),
                  (''password'', JString ''S3cret!pw''),
                  (''provisioningMethod'', JString ''inline-password'') ]]) ])"
proof -
  have h: "accepted (\<lambda>k. k) (\<lambda>e. True) example_values"
    by (simp add: accepted_def handleValidate_def required_def falsy_def field_def
          example_values_def)
  have h': "accepted (\<lambda>k. k) (\<lambda>e. True) example_values_no_name"
    by (simp add: accepted_def handleValidate_def required_def falsy_def field_def
          example_values_no_name_def)
  show ?thesis
    using h h' handleSubmit_payload [OF h, of "''inline-password''"]
      handleSubmit_payload [OF h', of "''inline-password''"]
    by (simp add: example_values_def example_values_no_name_def AddTenantForm_handleSubmit_def
          AddTenantRequestPayload_def js_def field_def)
qed

text \<open>
  Claim C2, as stated, fails: the payload of an accepted form has no key
  \<open>organizationName\<close> and no key \<open>owner\<close>; the organization name is under \<open>name\<close> and the
  owner is the single element of the array under \<open>owners\<close>. And for an accepted form
  without an organization name, \<open>name\<close> is undefined, not a string.
\<close>

theorem handleSubmit_payload_counterexample:
  "accepted (\<lambda>k. k) (\<lambda>e. True) example_values
   \<and> AddTenantForm_handleSubmit ''inline-password'' True example_values
       = Inr (AddTenantRequestPayload ''inline-password'' example_values)
   \<and> keys (AddTenantRequestPayload ''inline-password'' example_values)
       = [''domain'', ''name'', ''owners'']
   \<and> get (AddTenantRequestPayload ''inline-password'' example_values) ''organizationName'' = None
   \<and> get (AddTenantRequestPayload ''inline-password'' example_values) ''owner'' = None
   \<and> get (AddTenantRequestPayload ''inline-password'' example_values) ''name''
       = Some (JString ''Acme'')
   \<and> get (AddTenantRequestPayload ''inline-password'' example_values) ''owners''
       = Some (JArray [JObject
           [ (''firstname'', JString ''Ada''), (''lastname'', JString ''King''),
             (''username'', JString ''ada@acme.com''), (''email'', JString ''ada@acme.com''),
             (''password'', JString ''S3cret!pw''),
             (''provisioningMethod'', JString ''inline-password'') ]])
   \<and> accepted (\<lambda>k. k) (\<lambda>e. True) example_values_no_name
   \<and> AddTenantForm_handleSubmit ''inline-password'' True example_values_no_name
       = Inr (AddTenantRequestPayload ''inline-password'' example_values_no_name)
   \<and> get (AddTenantRequestPayload ''inline-password'' example_values_no_name) ''name''
       = Some JUndefined"
  by (simp add: accepted_def handleValidate_def required_def falsy_def field_def
        example_values_def example_values_no_name_def AddTenantForm_handleSubmit_def
        AddTenantRequestPayload_def js_def get_def keys_def)

section \<open>Properties of the organization discovery form\<close>

subsection \<open>A page of organizations arrives\<close>

lemma scan_link_next:
  "rel l = ''next'' \<Longrightarrow>
   scan_link l (st, b) =
     (st\<lparr> afterCursor := at_index (split (href l) ''after='') 1,
          hasMoreOrganizations := \<not> falsy (at_index (split (href l) ''after='') 1) \<rparr>, True)"
  by (simp add: scan_link_def Let_def)

lemma scan_link_other: "rel l \<noteq> ''next'' \<Longrightarrow> scan_link l (st, b) = (st, b)"
  by (simp add: scan_link_def)

lemma fold_scan_link:
  "fold scan_link ls (st, b) =
     (case find (\<lambda>l. rel l = ''next'') (rev ls) of
        None \<Rightarrow> (st, b)
      | Some l \<Rightarrow>
          (st\<lparr> afterCursor := at_index (split (href l) ''after='') 1,
               hasMoreOrganizations := \<not> falsy (at_index (split (href l) ''after='') 1) \<rparr>,
           True))"
proof (induction ls rule: rev_induct)
  case Nil
  show ?case by simp
next
  case (snoc l ls)
  have step: "fold scan_link (ls @ [l]) (st, b) = scan_link l (fold scan_link ls (st, b))"
    by simp
  show ?case
  proof (cases "rel l = ''next''")
    case True
    obtain st' b' where f: "fold scan_link ls (st, b) = (st', b')"
      by (cases "fold scan_link ls (st, b)")
    have "st' = st \<or> (\<exists>c h. st' = st\<lparr> afterCursor := c, hasMoreOrganizations := h \<rparr>)"
      using f snoc.IH by (auto split: option.splits)
    then have "st'\<lparr> afterCursor := at_index (split (href l) ''after='') 1,
          hasMoreOrganizations := \<not> falsy (at_index (split (href l) ''after='') 1) \<rparr>
        = st\<lparr> afterCursor := at_index (split (href l) ''after='') 1,
          hasMoreOrganizations := \<not> falsy (at_index (split (href l) ''after='') 1) \<rparr>"
      by auto
    then show ?thesis
      unfolding step f by (simp add: True scan_link_next)
  next
    case False
    then show ?thesis
      unfolding step snoc.IH by (simp add: scan_link_other split: option.splits)
  qed
qed

lemma onOrganizationListResponse_appends:
  "organizations (onOrganizationListResponse (Some r) False False s)
     = organizations s @ (case response_organizations r of None \<Rightarrow> [] | Some os \<Rightarrow> os)"
  by (simp add: onOrganizationListResponse_def fold_scan_link Let_def split: option.splits)




subsection \<open>The filter text changes\<close>

text \<open>
  Claim C6. The transition that the debounced input handler takes for a new filter text
  empties the accumulated organizations, sets the cursor to the empty string (and the
  request's \<open>after\<close> parameter to null), stores the new text and its filter, and asks for
  a fetch. Nothing accumulated under the earlier filter is left: when the fetch for the
  new filter completes, the accumulated organizations are exactly those of its response.
\<close>

theorem handleInputChange_clears:
  "organizations (handleInputChange d s) = []
   \<and> afterCursor (handleInputChange d s) = Some []
   \<and> after (params (handleInputChange d s)) = None
   \<and> inputValue (handleInputChange d s) = nullish d []
   \<and> filter_param (params (handleInputChange d s))
       = Some (if nullish d [] \<noteq> [] then queryPrefix @ nullish d [] else [])
   \<and> shouldFetch (params (handleInputChange d s)) = True
   \<and> organizations (onOrganizationListResponse (Some r) False False (handleInputChange d s))
       = (case response_organizations r of None \<Rightarrow> [] | Some os \<Rightarrow> os)"
proof -
  have 1: "organizations (handleInputChange d s) = []"
    by (simp add: handleInputChange_def updateParams_def Let_def)
  have "organizations (onOrganizationListResponse (Some r) False False (handleInputChange d s))
       = organizations (handleInputChange d s)
           @ (case response_organizations r of None \<Rightarrow> [] | Some os \<Rightarrow> os)"
    by (rule onOrganizationListResponse_appends)
  with 1 show ?thesis
    by (simp add: handleInputChange_def updateParams_def Let_def falsy_def)
qed

subsection \<open>A fetch fails\<close>

text \<open>
  Claim C7, as the code has it. When the organization list request has failed, exactly
  one alert of level ERROR is dispatched. If the error carries a response whose body has
  a non-empty description, the alert has that description and the body's message (the
  standard error message when the body has no message). In every other case (no
  response, no body, no description or an empty one, also when the body has a message)
  the alert has the generic description and the generic message. The accumulated
  organizations, the cursor, the has-more flag and the request parameters are left as
  they were.
\<close>

theorem onOrganizationsFetchRequestError_frame:
  "onOrganizationsFetchRequestError t (Some e) s =
     s\<lparr> alerts := alerts s @
        [let generic =
               \<lparr> description =
                   t ''organizations:notifications.getOrganizationList.genericError.description'',
                 level = ERROR,
                 message =
                   t ''organizations:notifications.getOrganizationList.genericError.message'' \<rparr>
         in case response e of
              None \<Rightarrow> generic
            | Some r \<Rightarrow>
               (case data r of
                  None \<Rightarrow> generic
                | Some body \<Rightarrow>
                   (case data_description body of
                      None \<Rightarrow> generic
                    | Some d \<Rightarrow>
                       (if d = [] then generic
                        else \<lparr> description = d, level = ERROR,
                               message =
                                 (case data_message body of
                                    None \<Rightarrow>
                                      t ''organizations:notifications.getOrganizationList.error.message''
                                  | Some m \<Rightarrow> m) \<rparr>)))] \<rparr>
   \<and> organizations (onOrganizationsFetchRequestError t (Some e) s) = organizations s
   \<and> afterCursor (onOrganizationsFetchRequestError t (Some e) s) = afterCursor s
   \<and> hasMoreOrganizations (onOrganizationsFetchRequestError t (Some e) s) = hasMoreOrganizations s
   \<and> params (onOrganizationsFetchRequestError t (Some e) s) = params s
   \<and> length (alerts (onOrganizationsFetchRequestError t (Some e) s)) = Suc (length (alerts s))"
  by (simp add: onOrganizationsFetchRequestError_def dispatch_addAlert_def server_description_def
        server_message_def response_data_def falsy_def nullish_def Let_def
      split: option.splits)

theorem onOrganizationsFetchRequestError_frame_witness:
  "onOrganizationsFetchRequestError (\<lambda>k. k)
     (Some \<lparr> response = Some \<lparr> data = Some \<lparr> data_description = Some ''Unable to list organizations.'',
                                            data_message = Some ''Server error'' \<rparr> \<rparr> \<rparr>)
     (initial_state\<lparr> organizations := [\<lparr> org_id = ''10084a8d'', org_name = ''Acme'' \<rparr>],
                     afterCursor := Some ''MTIz'' \<rparr>)
   = initial_state\<lparr> organizations := [\<lparr> org_id = ''10084a8d'', org_name = ''Acme'' \<rparr>],
                     afterCursor := Some ''MTIz'',
                     alerts := [\<lparr> description = ''Unable to list organizations.'', level = ERROR,
                                  message = ''Server error'' \<rparr>] \<rparr>
   \<and> alerts (onOrganizationsFetchRequestError (\<lambda>k. k)
     (Some \<lparr> response = Some \<lparr> data = Some \<lparr> data_description = Some ''Unable to list organizations.'',
                                            data_message = None \<rparr> \<rparr> \<rparr>) initial_state)
     = [\<lparr> description = ''Unable to list organizations.'', level = ERROR,
          message = ''organizations:notifications.getOrganizationList.error.message'' \<rparr>]
   \<and> alerts (onOrganizationsFetchRequestError (\<lambda>k. k) (Some \<lparr> response = None \<rparr>) initial_state)
     = [\<lparr> description =
            ''organizations:notifications.getOrganizationList.genericError.description'',
          level = ERROR,
          message = ''organizations:notifications.getOrganizationList.genericError.message'' \<rparr>]"
  using onOrganizationsFetchRequestError_frame [of "\<lambda>k. k"
      "\<lparr> response = Some \<lparr> data = Some \<lparr> data_description = Some ''Unable to list organizations.'',
                                            data_message = Some ''Server error'' \<rparr> \<rparr> \<rparr>"
      "initial_state\<lparr> organizations := [\<lparr> org_id = ''10084a8d'', org_name = ''Acme'' \<rparr>],
                     afterCursor := Some ''MTIz'' \<rparr>"]
    onOrganizationsFetchRequestError_frame [of "\<lambda>k. k"
      "\<lparr> response = Some \<lparr> data = Some \<lparr> data_description = Some ''Unable to list organizations.'',
                                            data_message = None \<rparr> \<rparr> \<rparr>" initial_state]
    onOrganizationsFetchRequestError_frame [of "\<lambda>k. k" "\<lparr> response = None \<rparr>" initial_state]
  by (simp add: initial_state_def)

text \<open>
  Claim C7, as stated, fails: for an error body that has a message but no description,
  the alert is not built from the body; it has the generic description and message.
\<close>

theorem onOrganizationsFetchRequestError_counterexample:
  "alerts (onOrganizationsFetchRequestError (\<lambda>k. k)
     (Some \<lparr> response = Some \<lparr> data = Some \<lparr> data_description = None,
                                            data_message = Some ''Server error'' \<rparr> \<rparr> \<rparr>)
     initial_state)
   = [\<lparr> description =
          ''organizations:notifications.getOrganizationList.genericError.description'',
        level = ERROR,
        message = ''organizations:notifications.getOrganizationList.genericError.message'' \<rparr>]"
  by (simp add: onOrganizationsFetchRequestError_def dispatch_addAlert_def server_description_def
        server_message_def response_data_def falsy_def nullish_def initial_state_def)

subsection \<open>The submit button\<close>




subsection \<open>Looking up the selected organization\<close>

text \<open>
  Claim C10. The submit handler reads the id of the first accumulated organization whose
  name is the submitted one. It throws a TypeError exactly when no accumulated
  organization has that name; when one has, the request is made with the id of such an
  organization and the current email domains.
\<close>

theorem handleSubmit_lookup:
  "(AddOrganizationDiscoveryDomains_handleSubmit n s = Inl TypeError
      \<longleftrightarrow> \<not> (\<exists>organization \<in> set (organizations s). Some (org_name organization) = n))
   \<and> ((\<exists>organization \<in> set (organizations s). Some (org_name organization) = n)
      \<longleftrightarrow> (\<exists>organization \<in> set (organizations s). Some (org_name organization) = n \<and>
             AddOrganizationDiscoveryDomains_handleSubmit n s
               = Inr (org_id organization, emailDomains s)))"
proof -
  let ?P = "\<lambda>organization. Some (org_name organization) = n"
  show ?thesis
  proof (cases "find ?P (organizations s)")
    case None
    then have "\<not> (\<exists>organization \<in> set (organizations s). ?P organization)"
      by (simp add: find_None_iff)
    with None show ?thesis
      by (simp add: AddOrganizationDiscoveryDomains_handleSubmit_def)
  next
    case (Some organization)
    then have "organization \<in> set (organizations s)" "?P organization"
      by (auto simp: find_Some_iff)
    with Some show ?thesis
      by (auto simp: AddOrganizationDiscoveryDomains_handleSubmit_def)
  qed
qed

theorem handleSubmit_lookup_witness:
  "AddOrganizationDiscoveryDomains_handleSubmit (Some ''Globex'')
     (initial_state\<lparr> organizations := [\<lparr> org_id = ''10084a8d'', org_name = ''Acme'' \<rparr>],
                     emailDomains := [''example.com''] \<rparr>) = Inl TypeError
   \<and> AddOrganizationDiscoveryDomains_handleSubmit (Some ''Acme'')
     (initial_state\<lparr> organizations := [\<lparr> org_id = ''10084a8d'', org_name = ''Acme'' \<rparr>],
                     emailDomains := [''example.com''] \<rparr>) = Inr (''10084a8d'', [''example.com''])"
  using handleSubmit_lookup [of "Some ''Globex''"
          "initial_state\<lparr> organizations := [\<lparr> org_id = ''10084a8d'', org_name = ''Acme'' \<rparr>],
                     emailDomains := [''example.com''] \<rparr>"]
        handleSubmit_lookup [of "Some ''Acme''"
          "initial_state\<lparr> organizations := [\<lparr> org_id = ''10084a8d'', org_name = ''Acme'' \<rparr>],
                     emailDomains := [''example.com''] \<rparr>"]
  by (simp add: initial_state_def)

subsection \<open>The committed email domains\<close>

lemma checkEmailDomainAvailability_value:
  "fst (checkEmailDomainAvailability t checkEmailDomainAvailable d) =
     (case checkEmailDomainAvailable d of
        Rejected \<Rightarrow> Some True
      | Resolved None \<Rightarrow> None
      | Resolved (Some r) \<Rightarrow> available r)"
  by (simp add: checkEmailDomainAvailability_def split: promise.splits option.splits)

lemma validateEmailDomain_list:
  "fst (validateEmailDomain t FormValidation_domain checkEmailDomainAvailable v s) =
     (if FormValidation_domain (last_entry v) \<and>
         fst (checkEmailDomainAvailability t checkEmailDomainAvailable (last_entry v)) = Some True
      then v else butlast v)"
  by (simp add: validateEmailDomain_def Let_def split: prod.splits)

lemma onChange_emailDomains:
  "emailDomains (onChange t FormValidation_domain checkEmailDomainAvailable v s) =
     fst (validateEmailDomain t FormValidation_domain checkEmailDomainAvailable v
            (s\<lparr> emailDomains := v \<rparr>))"
proof (cases "v = []")
  case True
  then show ?thesis
    by (simp add: onChange_def validateEmailDomain_list)
next
  case False
  then show ?thesis
    by (simp add: onChange_def Let_def split: prod.splits)
qed

text \<open>
  An entry whose availability request is rejected stays in the list; an entry whose
  request is answered stays only if it passed the format check and the answer was
  "available".
\<close>

lemma onChange_rejected_check:
  "v \<noteq> [] \<Longrightarrow> FormValidation_domain (Some (last v)) \<Longrightarrow>
   checkEmailDomainAvailable (Some (last v)) = Rejected \<Longrightarrow>
   emailDomains (onChange t FormValidation_domain checkEmailDomainAvailable v s) = v"
  by (simp add: onChange_emailDomains validateEmailDomain_list checkEmailDomainAvailability_value
        last_entry_def)

lemma onChange_answered_check:
  assumes "checkEmailDomainAvailable (Some d) = Resolved resp"
    and "emailDomains (onChange t FormValidation_domain checkEmailDomainAvailable (vs @ [d]) s)
           = vs @ [d]"
  shows "FormValidation_domain (Some d) \<and> (\<exists>r. resp = Some r \<and> available r = Some True)"
proof -
  have "butlast (vs @ [d]) \<noteq> vs @ [d]" by simp
  with assms(2) have "FormValidation_domain (Some d) \<and>
      fst (checkEmailDomainAvailability t checkEmailDomainAvailable (Some d)) = Some True"
    by (simp add: onChange_emailDomains validateEmailDomain_list last_entry_def split: if_splits)
  with assms(1) show ?thesis
    by (cases resp) (simp_all add: checkEmailDomainAvailability_value)
qed

text \<open>
  Claim C1 does not hold of the code. The entry \<open>example.com\<close> passes the format check and
  its availability request is rejected: an error alert is dispatched, but the value that
  \<open>checkEmailDomainAvailability\<close> returns is still its initial \<open>true\<close>, so the entry stays
  in the list and no error flag is raised.
\<close>

theorem rejected_check_keeps_entry:
  "emailDomains (onChange (\<lambda>k. k) (\<lambda>d. True) (\<lambda>d. Rejected) [''example.com''] initial_state)
     = [''example.com'']
   \<and> isEmailDomainAvailableError
       (onChange (\<lambda>k. k) (\<lambda>d. True) (\<lambda>d. Rejected) [''example.com''] initial_state) = False
   \<and> isEmailDomainDataError
       (onChange (\<lambda>k. k) (\<lambda>d. True) (\<lambda>d. Rejected) [''example.com''] initial_state) = False
   \<and> alerts (onChange (\<lambda>k. k) (\<lambda>d. True) (\<lambda>d. Rejected) [''example.com''] initial_state)
       = [checkEmailDomainError (\<lambda>k. k)]"
  by (simp add: onChange_def validateEmailDomain_def checkEmailDomainAvailability_def
        initial_state_def last_entry_def)

end
